theory Spec2Isabelle
  imports Main "HOL-Library.Sublist"
begin

section \<open>Data model\<close>

text \<open>
  Documents of the five collections the controllers touch. Object ids, roles, enrollment
  types and unit discriminators are strings, as the TypeScript compares them
  (\<^verbatim>\<open>course.enrollType === 'whitelist'\<close>, \<^verbatim>\<open>currentUser.role === 'student'\<close>,
  \<^verbatim>\<open>unit.__t === 'code-kata'\<close>). Optional fields are options: \<open>None\<close> is
  \<^verbatim>\<open>undefined\<close>/\<^verbatim>\<open>null\<close>. The records keep the fields the handlers and hooks read
  or write; \<open>user_id\<close>, \<open>course_id\<close>, \<open>unit_id\<close>, \<open>lecture_id\<close> and \<open>wu_id\<close> are the
  \<^verbatim>\<open>_id\<close> of the document, \<open>unit_t\<close> is \<^verbatim>\<open>__t\<close>, and \<open>firstName\<close>, \<open>lastName\<close> of a user
  are those of its \<^verbatim>\<open>profile\<close>. A reference to a document is its id.
\<close>

type_synonym oid = string

record user =
  user_id :: oid
  uid :: string
  firstName :: string
  lastName :: string
  role :: string

record whitelist_user =
  wu_id :: oid
  wu_firstName :: string
  wu_lastName :: string
  wu_uid :: string

record ifile =
  path :: string
  name :: string
  file_alias :: string
  file_size :: nat

record iunit =
  unit_id :: oid
  unit_t :: string
  unit_course :: oid
  code :: "string option"
  files :: "ifile list"

record lecture =
  lecture_id :: oid
  units :: "oid list"

record course =
  course_id :: oid
  active :: bool
  enrollType :: string
  accessKey :: "string option"
  whitelist :: "oid list"
  students :: "oid list"
  teachers :: "oid list"
  courseAdmin :: oid
  lectures :: "oid list"

text \<open>
  The file system as far as \<^verbatim>\<open>fs.unlink\<close> is concerned: the paths that exist, and the
  log of every path \<^verbatim>\<open>fs.unlink\<close> was called with, oldest first.
\<close>

record fsys =
  present :: "string set"
  unlink_log :: "string list"

text \<open>
  The persistent state: each collection in natural (insertion) order, and the disk.
\<close>

record db =
  courses :: "course list"
  lecture_docs :: "lecture list"
  unit_docs :: "iunit list"
  users :: "user list"
  whitelist_users :: "whitelist_user list"
  disk :: fsys

text \<open>
  Modelled from the spec: the error codes of \<^verbatim>\<open>config/errorCodes\<close>, whose values are not
  part of the sources at hand; \<^verbatim>\<open>errorCodes.course.notOnWhitelist.code\<close> is the spec's
  \<^verbatim>\<open>not-on-whitelist\<close> and \<^verbatim>\<open>errorCodes.course.accessKey.code\<close> its
  \<^verbatim>\<open>invalid-access-key\<close>.
\<close>

datatype error_code = course_notOnWhitelist | course_accessKey

text \<open>
  What the promise of a handler rejects with: the errors the handlers throw, and the
  \<^verbatim>\<open>ObjectParameterError\<close> with which mongoose rejects a query whose filter is no object.
\<close>

datatype http_error = NotFoundError | ForbiddenError error_code | ObjectParameterError

text \<open>
  What a handler resolves to: a course object (\<^verbatim>\<open>course.toObject()\<close>) or nothing at all
  (\<^verbatim>\<open>undefined\<close>, the value of a promise whose callback returns nothing).
\<close>

datatype response = Undefined | CourseObject course

section \<open>JavaScript helpers\<close>

text \<open>\<^verbatim>\<open>Array.prototype.indexOf\<close>: the first position of the element, or -1.\<close>

fun indexOf_from :: "'a list \<Rightarrow> 'a \<Rightarrow> int \<Rightarrow> int" where
  "indexOf_from [] x i = - 1"
| "indexOf_from (y # ys) x i = (if y = x then i else indexOf_from ys x (i + 1))"

definition indexOf :: "'a list \<Rightarrow> 'a \<Rightarrow> int" where
  "indexOf xs x = indexOf_from xs x 0"

text \<open>
  \<^verbatim>\<open>Array.prototype.splice(start, deleteCount)\<close> without inserted items: a negative
  \<open>start\<close> counts from the end, and both bounds are clamped to the array. (The list
  function \<open>splice\<close> of HOL is another one, hence the suffix.)
\<close>

definition splice_js :: "int \<Rightarrow> nat \<Rightarrow> 'a list \<Rightarrow> 'a list" where
  "splice_js start deleteCount xs =
     (let len = int (length xs);
          s = nat (if start < 0 then max (len + start) 0 else min start len)
      in take s xs @ drop (s + deleteCount) xs)"

text \<open>
  \<^verbatim>\<open>String.prototype.toLowerCase\<close>. A \<open>char\<close> is read as the code unit of its number, so a
  string is a string of the code units below 256 (Basic Latin and Latin-1 Supplement). There
  the capitals are A to Z and, from U+00C0 to U+00DE without the sign U+00D7, the accented
  ones; each lies 32 below its small letter, and every other code unit is kept.
\<close>

definition toLowerCase_char :: "char \<Rightarrow> char" where
  "toLowerCase_char c =
     (let n = (of_char c :: nat)
      in if (65 \<le> n \<and> n \<le> 90) \<or> (192 \<le> n \<and> n \<le> 222 \<and> n \<noteq> 215)
         then char_of (n + 32) else c)"

definition toLowerCase :: "string \<Rightarrow> string" where
  "toLowerCase s = map toLowerCase_char s"

text \<open>The truthiness of an optional string: \<^verbatim>\<open>undefined\<close>, \<^verbatim>\<open>null\<close> and \<^verbatim>\<open>''\<close> are falsy.\<close>

fun truthy :: "string option \<Rightarrow> bool" where
  "truthy None = False"
| "truthy (Some s) = (s \<noteq> [])"

section \<open>Persistence\<close>

definition Course_findById :: "db \<Rightarrow> oid \<Rightarrow> course option" where
  "Course_findById d i = find (\<lambda>c. course_id c = i) (courses d)"

text \<open>\<^verbatim>\<open>course.save()\<close>: the stored document with the same id is replaced.\<close>

definition Course_save :: "course \<Rightarrow> db \<Rightarrow> db" where
  "Course_save c d =
     d\<lparr>courses := map (\<lambda>c'. if course_id c' = course_id c then c else c') (courses d)\<rparr>"

text \<open>
  \<^verbatim>\<open>WhitelistUser.find(course.whitelist)\<close>. The first argument of \<^verbatim>\<open>Model.find\<close> is the
  filter, and the handler passes the array of references itself. An array, empty or not,
  is no filter object: the query records an \<^verbatim>\<open>ObjectParameterError\<close> and rejects with it
  when it is run. No entry is selected, by the ids of the array or otherwise.
\<close>

definition WhitelistUser_find :: "db \<Rightarrow> oid list \<Rightarrow> http_error + whitelist_user list" where
  "WhitelistUser_find d conditions = Inl ObjectParameterError"

section \<open>CourseController: enrollStudent and leaveStudent\<close>

text \<open>
  The tail of \<^verbatim>\<open>enrollStudent\<close> (the membership step): push and save when the user's id
  is not yet among the students, and resolve to the course object either way.
\<close>

definition enroll_membership :: "db \<Rightarrow> course \<Rightarrow> user \<Rightarrow> (http_error + response) \<times> db" where
  "enroll_membership d course currentUser =
     (if indexOf (students course) (user_id currentUser) < 0
      then (let c = course\<lparr>students := students course @ [user_id currentUser]\<rparr>
            in (Inr (CourseObject c), Course_save c d))
      else (Inr (CourseObject course), d))"

text \<open>
  The callback that the whitelist branch of \<^verbatim>\<open>enrollStudent\<close> chains to the lookup,
  \<^verbatim>\<open>(wUsers) => { if (wUsers.filter(...).length <= 0) { throw ... } }\<close>: it throws or it
  returns nothing.
\<close>

definition enrollStudent_wUsers ::
  "whitelist_user list \<Rightarrow> user \<Rightarrow> db \<Rightarrow> (http_error + response) \<times> db" where
  "enrollStudent_wUsers wUsers currentUser d =
     (if length (filter (\<lambda>e. wu_firstName e = toLowerCase (firstName currentUser)
                           \<and> wu_lastName e = toLowerCase (lastName currentUser)
                           \<and> wu_uid e = uid currentUser) wUsers) \<le> 0
      then (Inl (ForbiddenError course_notOnWhitelist), d)
      else (Inr Undefined, d))"

text \<open>
  \<^verbatim>\<open>enrollStudent(id, data, currentUser)\<close>; of the request body only \<^verbatim>\<open>data.accessKey\<close>
  is read. In the whitelist branch the handler \<^emph>\<open>returns\<close> the promise
  \<^verbatim>\<open>WhitelistUser.find(course.whitelist).then(callback)\<close>: it rejects with what the lookup
  rejects with, and otherwise it is settled by the callback. Either way the code after the
  conditional is not run for such a course.
\<close>

definition enrollStudent ::
  "db \<Rightarrow> oid \<Rightarrow> string option \<Rightarrow> user \<Rightarrow> (http_error + response) \<times> db" where
  "enrollStudent d i data_accessKey currentUser =
     (case Course_findById d i of
        None \<Rightarrow> (Inl NotFoundError, d)
      | Some course \<Rightarrow>
          if enrollType course = ''whitelist'' then
            (case WhitelistUser_find d (whitelist course) of
               Inl err \<Rightarrow> (Inl err, d)
             | Inr wUsers \<Rightarrow> enrollStudent_wUsers wUsers currentUser d)
          else if truthy (accessKey course) \<and> accessKey course \<noteq> data_accessKey
          then (Inl (ForbiddenError course_accessKey), d)
          else enroll_membership d course currentUser)"

text \<open>\<^verbatim>\<open>leaveStudent(id, data, currentUser)\<close>.\<close>

definition leaveStudent :: "db \<Rightarrow> oid \<Rightarrow> user \<Rightarrow> (http_error + response) \<times> db" where
  "leaveStudent d i currentUser =
     (case Course_findById d i of
        None \<Rightarrow> (Inl NotFoundError, d)
      | Some course \<Rightarrow>
          (let index = indexOf (students course) (user_id currentUser) in
           if index \<noteq> 0
           then (let c = course\<lparr>students := splice_js index 1 (students course)\<rparr>
                 in (Inr (CourseObject c), Course_save c d))
           else (Inr (CourseObject course), d)))"

section \<open>FileUnit: the hooks on removal and on replacing the files\<close>

text \<open>
  \<^verbatim>\<open>fs.unlink(path, callback)\<close>: the call is logged, the file is gone afterwards, and the
  callback is told whether the path was missing.
\<close>

definition fs_unlink :: "string \<Rightarrow> fsys \<Rightarrow> bool \<times> fsys" where
  "fs_unlink p f =
     (p \<notin> present f, f\<lparr>present := present f - {p}, unlink_log := unlink_log f @ [p]\<rparr>)"

text \<open>\<^verbatim>\<open>fs.unlink(file.path, () => {})\<close>: the callback drops the error.\<close>

definition unlink_discard :: "string \<Rightarrow> fsys \<Rightarrow> fsys" where
  "unlink_discard p f = snd (fs_unlink p f)"

text \<open>\<^verbatim>\<open>fileUnitSchema.pre('remove', ...)\<close>: the cascade delete.\<close>

definition FileUnit_pre_remove :: "iunit \<Rightarrow> fsys \<Rightarrow> fsys" where
  "FileUnit_pre_remove this f = fold (\<lambda>file. unlink_discard (path file)) (files this) f"

text \<open>
  \<^verbatim>\<open>fileUnitSchema.path('files').set(...)\<close>: the setter returns the new list, which becomes
  the value of the field.
\<close>

definition FileUnit_files_set :: "iunit \<Rightarrow> ifile list \<Rightarrow> fsys \<Rightarrow> ifile list \<times> fsys" where
  "FileUnit_files_set this newFiles f =
     (newFiles,
      fold (\<lambda>file f'.
              if \<not> list_ex (\<lambda>newFile. name newFile = name file) newFiles
              then unlink_discard (path file) f' else f')
        (files this) f)"

section \<open>UnitController: deleteUnit\<close>

definition Unit_findById :: "db \<Rightarrow> oid \<Rightarrow> iunit option" where
  "Unit_findById d i = find (\<lambda>u. unit_id u = i) (unit_docs d)"

text \<open>
  \<^verbatim>\<open>Lecture.update({}, {$pull: {units: id}})\<close>. Without the \<^verbatim>\<open>multi\<close> option
  \<^verbatim>\<open>Model.update\<close> changes one document, the first that matches the conditions; the
  conditions \<^verbatim>\<open>{}\<close> match every lecture, so the id is pulled from the first lecture of
  the collection.
\<close>

fun Lecture_update_pull :: "lecture list \<Rightarrow> oid \<Rightarrow> lecture list" where
  "Lecture_update_pull [] i = []"
| "Lecture_update_pull (l # ls) i = l\<lparr>units := removeAll i (units l)\<rparr> # ls"

text \<open>
  \<^verbatim>\<open>unit.remove()\<close>: the hook of the \<^verbatim>\<open>file\<close> discriminator runs first, then the record
  is deleted.
\<close>

definition Unit_remove :: "iunit \<Rightarrow> db \<Rightarrow> db" where
  "Unit_remove u d =
     d\<lparr>unit_docs := filter (\<lambda>u'. unit_id u' \<noteq> unit_id u) (unit_docs d),
       disk := (if unit_t u = ''file'' then FileUnit_pre_remove u (disk d) else disk d)\<rparr>"

text \<open>\<^verbatim>\<open>deleteUnit(id)\<close>; \<open>Inr True\<close> is \<^verbatim>\<open>{result: true}\<close>.\<close>

definition deleteUnit :: "db \<Rightarrow> oid \<Rightarrow> (http_error + bool) \<times> db" where
  "deleteUnit d i =
     (case Unit_findById d i of
        None \<Rightarrow> (Inl NotFoundError, d)
      | Some u \<Rightarrow>
          (let d1 = d\<lparr>lecture_docs := Lecture_update_pull (lecture_docs d) i\<rparr>;
               d2 = Unit_remove u d1
           in (Inr True, d2)))"

section \<open>CourseController: getCourses and getCourse\<close>

text \<open>The query conditions the controller builds, and when a course matches them.\<close>

datatype cond = students_has oid | teachers_has oid | courseAdmin_is oid | enrollType_is string

record conditions =
  cond_active :: "bool option"
  cond_or :: "cond list option"
  cond_id :: "oid option"

fun cond_holds :: "cond \<Rightarrow> course \<Rightarrow> bool" where
  "cond_holds (students_has i) c = (i \<in> set (students c))"
| "cond_holds (teachers_has i) c = (i \<in> set (teachers c))"
| "cond_holds (courseAdmin_is i) c = (courseAdmin c = i)"
| "cond_holds (enrollType_is t) c = (enrollType c = t)"

definition matches :: "conditions \<Rightarrow> course \<Rightarrow> bool" where
  "matches q c =
     ((case cond_active q of None \<Rightarrow> True | Some a \<Rightarrow> active c = a)
      \<and> (case cond_or q of None \<Rightarrow> True | Some cs \<Rightarrow> list_ex (\<lambda>x. cond_holds x c) cs)
      \<and> (case cond_id q of None \<Rightarrow> True | Some i \<Rightarrow> course_id c = i))"

definition userReadConditions :: "user \<Rightarrow> conditions" where
  "userReadConditions currentUser =
     (if role currentUser = ''admin''
      then \<lparr>cond_active = None, cond_or = None, cond_id = None\<rparr>
      else if role currentUser = ''student''
      then \<lparr>cond_active = Some True,
            cond_or = Some [students_has (user_id currentUser)], cond_id = None\<rparr>
      else \<lparr>cond_active = None,
            cond_or = Some [teachers_has (user_id currentUser),
                            courseAdmin_is (user_id currentUser)],
            cond_id = None\<rparr>)"

text \<open>
  Populated documents. \<^verbatim>\<open>populate\<close> replaces each reference by the document it names and
  drops the references that name none.
\<close>

record lecture_obj =
  lo_id :: oid
  lo_units :: "iunit list"

record ('l, 'w) course_obj =
  co_id :: oid
  co_active :: bool
  co_enrollType :: string
  co_accessKey :: "string option"
  co_whitelist :: "'w list"
  co_students :: "user list"
  co_teachers :: "user list"
  co_courseAdmin :: "user option"
  co_lectures :: "'l list"

definition populate_users :: "db \<Rightarrow> oid list \<Rightarrow> user list" where
  "populate_users d ids = List.map_filter (\<lambda>i. find (\<lambda>u. user_id u = i) (users d)) ids"

definition populate_lectures :: "db \<Rightarrow> oid list \<Rightarrow> lecture list" where
  "populate_lectures d ids =
     List.map_filter (\<lambda>i. find (\<lambda>l. lecture_id l = i) (lecture_docs d)) ids"

definition populate_units :: "db \<Rightarrow> oid list \<Rightarrow> iunit list" where
  "populate_units d ids = List.map_filter (\<lambda>i. find (\<lambda>u. unit_id u = i) (unit_docs d)) ids"

definition populate_whitelist :: "db \<Rightarrow> oid list \<Rightarrow> whitelist_user list" where
  "populate_whitelist d ids =
     List.map_filter (\<lambda>i. find (\<lambda>w. wu_id w = i) (whitelist_users d)) ids"

text \<open>
  \<^verbatim>\<open>getCourses(currentUser)\<close>: lectures, teachers, course admin and students are
  populated, the whitelist stays a list of references. A deleted \<^verbatim>\<open>courseAdmin\<close> is
  \<open>None\<close>; the ids that \<^verbatim>\<open>===\<close> compares are strings.
\<close>

definition getCourses :: "db \<Rightarrow> user \<Rightarrow> (lecture, oid) course_obj list" where
  "getCourses d currentUser =
     (let conditions = userReadConditions currentUser;
          conditions =
            (case cond_or conditions of
               Some cs \<Rightarrow>
                 conditions\<lparr>cond_or :=
                   Some (cs @ [enrollType_is ''free'', enrollType_is ''accesskey''])\<rparr>
             | None \<Rightarrow> conditions)
      in map (\<lambda>course.
                let courseObject =
                      \<lparr>co_id = course_id course, co_active = active course,
                       co_enrollType = enrollType course, co_accessKey = accessKey course,
                       co_whitelist = whitelist course,
                       co_students = populate_users d (students course),
                       co_teachers = populate_users d (teachers course),
                       co_courseAdmin = find (\<lambda>u. user_id u = courseAdmin course) (users d),
                       co_lectures = populate_lectures d (lectures course)\<rparr>
                in if role currentUser = ''student''
                   then courseObject
                          \<lparr>co_courseAdmin := None,
                           co_students :=
                             filter (\<lambda>student. user_id student = user_id currentUser)
                               (co_students courseObject)\<rparr>
                   else courseObject)
           (filter (matches conditions) (courses d)))"

text \<open>
  \<^verbatim>\<open>getCourse(id, currentUser)\<close>: the lectures are populated together with their units,
  and the whitelist too. The handler writes to the documents it has loaded and saves
  nothing, so the state comes back as it was.
\<close>

definition getCourse ::
  "db \<Rightarrow> oid \<Rightarrow> user \<Rightarrow> (http_error + (lecture_obj, whitelist_user) course_obj) \<times> db" where
  "getCourse d i currentUser =
     (case find (matches ((userReadConditions currentUser)\<lparr>cond_id := Some i\<rparr>)) (courses d) of
        None \<Rightarrow> (Inl NotFoundError, d)
      | Some c \<Rightarrow>
          (let course =
                 \<lparr>co_id = course_id c, co_active = active c,
                  co_enrollType = enrollType c, co_accessKey = accessKey c,
                  co_whitelist = populate_whitelist d (whitelist c),
                  co_students = populate_users d (students c),
                  co_teachers = populate_users d (teachers c),
                  co_courseAdmin = find (\<lambda>u. user_id u = courseAdmin c) (users d),
                  co_lectures =
                    map (\<lambda>l. \<lparr>lo_id = lecture_id l, lo_units = populate_units d (units l)\<rparr>)
                      (populate_lectures d (lectures c))\<rparr>;
               course =
                 course\<lparr>co_lectures :=
                   map (\<lambda>lecture.
                          lecture\<lparr>lo_units :=
                            map (\<lambda>unit.
                                   if unit_t unit = ''code-kata'' \<and> role currentUser = ''student''
                                   then unit\<lparr>code := None\<rparr> else unit)
                              (lo_units lecture)\<rparr>)
                     (co_lectures course)\<rparr>
           in (Inr course, d)))"

text \<open>
  What a course document tells about the membership of one user: of its students only the
  entries of that user are kept. Used to state that an answer depends on nothing more.
\<close>

definition own_entries :: "user \<Rightarrow> course \<Rightarrow> course" where
  "own_entries u c = c\<lparr>students := filter (\<lambda>s. s = user_id u) (students c)\<rparr>"

section \<open>Example data\<close>

text \<open>
  Two students, the whitelist entry of the first, a free course without members, two
  stored files, a file unit, a code kata and an empty store; the concrete inputs below are
  built from these.
\<close>

definition ada :: user where
  "ada = \<lparr>user_id = ''u1'', uid = ''al1'', firstName = ''Ada'', lastName = ''Lovelace'',
          role = ''student''\<rparr>"

definition bob :: user where
  "bob = \<lparr>user_id = ''u2'', uid = ''bb2'', firstName = ''Bob'', lastName = ''Byte'',
          role = ''student''\<rparr>"

definition w_ada :: whitelist_user where
  "w_ada = \<lparr>wu_id = ''w1'', wu_firstName = ''ada'', wu_lastName = ''lovelace'',
            wu_uid = ''al1''\<rparr>"

definition course0 :: course where
  "course0 = \<lparr>course_id = ''c1'', active = True, enrollType = ''free'', accessKey = None,
              whitelist = [], students = [], teachers = [], courseAdmin = ''t1'',
              lectures = []\<rparr>"

definition file_a :: ifile where
  "file_a = \<lparr>path = ''up/a'', name = ''a'', file_alias = ''A.pdf'', file_size = 10\<rparr>"

definition file_b :: ifile where
  "file_b = \<lparr>path = ''up/b'', name = ''b'', file_alias = ''B.pdf'', file_size = 20\<rparr>"

definition unit_file :: iunit where
  "unit_file = \<lparr>unit_id = ''x1'', unit_t = ''file'', unit_course = ''c1'', code = None,
                files = [file_a, file_b]\<rparr>"

definition unit_kata :: iunit where
  "unit_kata = \<lparr>unit_id = ''x2'', unit_t = ''code-kata'', unit_course = ''c1'',
                code = Some ''f()'', files = []\<rparr>"

definition tess :: user where
  "tess = \<lparr>user_id = ''t1'', uid = ''tt1'', firstName = ''Tess'', lastName = ''Teach'',
           role = ''teacher''\<rparr>"

definition db0 :: db where
  "db0 = \<lparr>courses = [], lecture_docs = [], unit_docs = [], users = [], whitelist_users = [],
          disk = \<lparr>present = {}, unlink_log = []\<rparr>\<rparr>"

text \<open>
  A course with one lecture that lists the code kata and the file unit; Ada and Bob are its
  students, Tess administers it.
\<close>

definition db_kata :: db where
  "db_kata =
     db0\<lparr>courses := [course0\<lparr>students := [''u1'', ''u2''], lectures := [''l1'']\<rparr>],
         lecture_docs := [\<lparr>lecture_id = ''l1'', units = [''x2'', ''x1'']\<rparr>],
         unit_docs := [unit_file, unit_kata],
         users := [ada, bob, tess]\<rparr>"

section \<open>Facts about the helpers\<close>

lemma toLowerCase_Ada: "toLowerCase ''Ada'' = ''ada''"
  by code_simp

lemma toLowerCase_Lovelace: "toLowerCase ''Lovelace'' = ''lovelace''"
  by code_simp

text \<open>
  Beyond ASCII: the capital E with acute (U+00C9) is lowered, the multiplication sign
  (U+00D7) and the sharp s (U+00DF) are kept.
\<close>

lemma toLowerCase_Latin1:
  "toLowerCase [CHR 0xC9, CHR ''M'', CHR 0xD7, CHR 0xDF] = [CHR 0xE9, CHR ''m'', CHR 0xD7, CHR 0xDF]"
  by code_simp

lemma indexOf_from_neg_iff: "0 \<le> i \<Longrightarrow> (indexOf_from xs x i < 0) = (x \<notin> set xs)"
  by (induction xs arbitrary: i) auto

lemma indexOf_neg_iff: "(indexOf xs x < 0) = (x \<notin> set xs)"
  by (simp add: indexOf_def indexOf_from_neg_iff)

lemma truthy_iff: "truthy a = (\<exists>s. a = Some s \<and> s \<noteq> [])"
  by (cases a) auto

lemma Course_findById_id: "Course_findById d i = Some c \<Longrightarrow> course_id c = i"
  by (auto simp: Course_findById_def find_Some_iff)

lemma find_replace:
  "find (\<lambda>c. course_id c = i) cs = Some c \<Longrightarrow> course_id c' = i \<Longrightarrow>
   find (\<lambda>c. course_id c = i) (map (\<lambda>x. if course_id x = i then c' else x) cs) = Some c'"
  by (induction cs) (auto split: if_splits)

lemma Course_findById_save:
  "Course_findById d i = Some c \<Longrightarrow> course_id c' = i \<Longrightarrow>
   Course_findById (Course_save c' d) i = Some c'"
  by (simp add: Course_findById_def Course_save_def find_replace)

lemma WhitelistUser_find_save:
  "WhitelistUser_find (Course_save c d) ids = WhitelistUser_find d ids"
  by (simp add: WhitelistUser_find_def)

section \<open>Enrollment\<close>

text \<open>The membership step never fails, and appends the user exactly when absent.\<close>

lemma enroll_membership_result:
  "enroll_membership d c u =
     (if user_id u \<in> set (students c) then (Inr (CourseObject c), d)
      else (Inr (CourseObject (c\<lparr>students := students c @ [user_id u]\<rparr>)),
            Course_save (c\<lparr>students := students c @ [user_id u]\<rparr>) d))"
  by (simp add: enroll_membership_def indexOf_neg_iff Let_def)

lemma enroll_membership_succeeds: "fst (enroll_membership d c u) \<noteq> Inl e"
  by (simp add: enroll_membership_result)

lemma enrollStudent_not_whitelist:
  assumes "Course_findById d i = Some c" and "enrollType c \<noteq> ''whitelist''"
  shows "enrollStudent d i k u =
           (if truthy (accessKey c) \<and> accessKey c \<noteq> k
            then (Inl (ForbiddenError course_accessKey), d)
            else enroll_membership d c u)"
  using assms by (simp add: enrollStudent_def)

text \<open>
  For a whitelist course the lookup rejects, and so does the handler, whoever asks and
  whatever the whitelist holds; nothing is written.
\<close>

lemma enrollStudent_whitelist:
  assumes "Course_findById d i = Some c" and "enrollType c = ''whitelist''"
  shows "enrollStudent d i k u = (Inl ObjectParameterError, d)"
  using assms by (simp add: enrollStudent_def WhitelistUser_find_def)

text \<open>
  The callback of the lookup, whatever entries it is given: it writes nothing and never
  takes the membership step. It resolves to \<^verbatim>\<open>undefined\<close> exactly when an entry matches,
  and throws the whitelist error otherwise. (A lookup that let the array pass as a filter
  would reach this callback; the membership step would be out of reach all the same.)
\<close>

lemma enrollStudent_wUsers_no_write: "snd (enrollStudent_wUsers wUsers u d) = d"
  by (simp add: enrollStudent_wUsers_def)

lemma enrollStudent_wUsers_match_iff:
  "(enrollStudent_wUsers wUsers u d = (Inr Undefined, d))
     = (\<exists>e \<in> set wUsers.
          wu_firstName e = toLowerCase (firstName u)
          \<and> wu_lastName e = toLowerCase (lastName u) \<and> wu_uid e = uid u)"
  by (auto simp: enrollStudent_wUsers_def filter_empty_conv)

lemma enrollStudent_wUsers_reject_iff:
  "(enrollStudent_wUsers wUsers u d = (Inl (ForbiddenError course_notOnWhitelist), d))
     = (\<not> (\<exists>e \<in> set wUsers.
              wu_firstName e = toLowerCase (firstName u)
              \<and> wu_lastName e = toLowerCase (lastName u) \<and> wu_uid e = uid u))"
  by (auto simp: enrollStudent_wUsers_def filter_empty_conv)

text \<open>A student who is a member already causes no write, and a second attempt repeats
  the first.\<close>

lemma enrollStudent_member_no_write:
  assumes "Course_findById d i = Some c" and "user_id u \<in> set (students c)"
  shows "snd (enrollStudent d i k u) = d"
  using assms
  by (simp add: enrollStudent_def enroll_membership_result WhitelistUser_find_def)

lemma enrollStudent_twice:
  "enrollStudent (snd (enrollStudent d i k u)) i k u = enrollStudent d i k u"
proof (cases "Course_findById d i")
  case None
  then show ?thesis by (simp add: enrollStudent_def)
next
  case (Some c)
  show ?thesis
  proof (cases "enrollType c = ''whitelist'' \<or> user_id u \<in> set (students c)
                \<or> (truthy (accessKey c) \<and> accessKey c \<noteq> k)")
    case True
    then have "snd (enrollStudent d i k u) = d"
      using Some by (auto simp: enrollStudent_def enroll_membership_result WhitelistUser_find_def)
    then show ?thesis by simp
  next
    case False
    let ?c' = "c\<lparr>students := students c @ [user_id u]\<rparr>"
    have r: "enrollStudent d i k u = (Inr (CourseObject ?c'), Course_save ?c' d)"
      using Some False by (simp add: enrollStudent_def enroll_membership_result)
    have f: "Course_findById (Course_save ?c' d) i = Some ?c'"
      using Some Course_findById_id [OF Some] by (simp add: Course_findById_save)
    have "enrollStudent (Course_save ?c' d) i k u = (Inr (CourseObject ?c'), Course_save ?c' d)"
      using f False by (simp add: enrollStudent_def enroll_membership_result)
    with r show ?thesis by simp
  qed
qed

text \<open>
  C1. A whitelist course holds the entry (ada, lovelace, al1); the student Ada Lovelace
  with uid al1, not yet a member, enrolls. The lookup rejects, since it is given the array
  of references as its filter, and the handler rejects with it: no entry is compared, the
  membership step is not taken and the course keeps its empty list of students. And were
  the matching entry handed to the callback of the lookup, the callback would return
  nothing: the handler would resolve to \<^verbatim>\<open>undefined\<close>, again without the membership step.
\<close>

theorem enrollStudent_whitelist_match_not_enrolled:
  "enrollStudent
     (db0\<lparr>courses := [course0\<lparr>enrollType := ''whitelist'', whitelist := [''w1'']\<rparr>],
          whitelist_users := [w_ada]\<rparr>) ''c1'' None ada
   = (Inl ObjectParameterError,
      db0\<lparr>courses := [course0\<lparr>enrollType := ''whitelist'', whitelist := [''w1'']\<rparr>],
          whitelist_users := [w_ada]\<rparr>)
   \<and> enrollStudent_wUsers [w_ada] ada
       (db0\<lparr>courses := [course0\<lparr>enrollType := ''whitelist'', whitelist := [''w1'']\<rparr>],
            whitelist_users := [w_ada]\<rparr>)
     = (Inr Undefined,
        db0\<lparr>courses := [course0\<lparr>enrollType := ''whitelist'', whitelist := [''w1'']\<rparr>],
            whitelist_users := [w_ada]\<rparr>)"
  by (simp add: enrollStudent_def enrollStudent_wUsers_def Course_findById_def
      WhitelistUser_find_def db0_def course0_def w_ada_def ada_def
      toLowerCase_Ada toLowerCase_Lovelace)

text \<open>
  C3 (as stated, refuted). The handler never reads \<^verbatim>\<open>course.active\<close>: a student enrolls
  in an inactive free course and is added to its students.
\<close>

theorem enrollStudent_inactive_counterexample:
  "enrollStudent (db0\<lparr>courses := [course0\<lparr>active := False\<rparr>]\<rparr>) ''c1'' None bob
   = (Inr (CourseObject (course0\<lparr>active := False, students := [''u2'']\<rparr>)),
      db0\<lparr>courses := [course0\<lparr>active := False, students := [''u2'']\<rparr>]\<rparr>)"
  by (simp add: enrollStudent_def enroll_membership_def Course_findById_def Course_save_def
      indexOf_def Let_def db0_def course0_def bob_def)

text \<open>
  C3 (amended). For a course with \<open>active = False\<close> an enrollment attempt has the outcome
  it has for the same course with \<open>active = True\<close>: the same rejection if any, and the
  same students afterwards. The existing members are unaffected: the students stored
  before the attempt are a prefix of the students stored after it, and the course stays
  inactive.
\<close>

theorem enrollStudent_inactive:
  assumes "Course_findById d i = Some c" and "\<not> active c"
  shows "(\<exists>c'. Course_findById (snd (enrollStudent d i k u)) i = Some c'
             \<and> \<not> active c' \<and> prefix (students c) (students c'))
       \<and> (\<forall>e. (fst (enrollStudent d i k u) = Inl e)
              = (fst (enrollStudent (Course_save (c\<lparr>active := True\<rparr>) d) i k u) = Inl e))
       \<and> map_option students (Course_findById (snd (enrollStudent d i k u)) i)
           = map_option students
               (Course_findById
                  (snd (enrollStudent (Course_save (c\<lparr>active := True\<rparr>) d) i k u)) i)"
proof -
  let ?on = "c\<lparr>active := True\<rparr>"
  let ?d = "Course_save ?on d"
  have cid: "course_id c = i" using assms(1) by (rule Course_findById_id)
  have fon: "Course_findById ?d i = Some ?on"
    using assms(1) cid by (simp add: Course_findById_save)
  show ?thesis
  proof (cases "enrollType c = ''whitelist'' \<or> user_id u \<in> set (students c)
                \<or> (truthy (accessKey c) \<and> accessKey c \<noteq> k)")
    case True
    have a: "snd (enrollStudent d i k u) = d"
      using True assms(1) by (auto simp: enrollStudent_def enroll_membership_result WhitelistUser_find_def)
    have b: "snd (enrollStudent ?d i k u) = ?d"
      using True fon by (auto simp: enrollStudent_def enroll_membership_result WhitelistUser_find_def)
    have e: "(fst (enrollStudent d i k u) = Inl e) = (fst (enrollStudent ?d i k u) = Inl e)"
      for e
      using True assms(1) fon
      by (auto simp: enrollStudent_def enroll_membership_result WhitelistUser_find_def)
    show ?thesis using a b e assms fon by simp
  next
    case False
    let ?c' = "c\<lparr>students := students c @ [user_id u]\<rparr>"
    let ?on' = "?on\<lparr>students := students c @ [user_id u]\<rparr>"
    have r: "enrollStudent d i k u = (Inr (CourseObject ?c'), Course_save ?c' d)"
      using assms(1) False by (simp add: enrollStudent_def enroll_membership_result)
    have f: "Course_findById (Course_save ?c' d) i = Some ?c'"
      using assms(1) cid by (simp add: Course_findById_save)
    have r': "enrollStudent ?d i k u = (Inr (CourseObject ?on'), Course_save ?on' ?d)"
      using fon False by (simp add: enrollStudent_def enroll_membership_result)
    have f': "Course_findById (Course_save ?on' ?d) i = Some ?on'"
      using fon cid by (simp add: Course_findById_save)
    show ?thesis using r f r' f' assms(2) by simp
  qed
qed

theorem enrollStudent_inactive_witness:
  "Course_findById (db0\<lparr>courses := [course0\<lparr>active := False\<rparr>]\<rparr>) ''c1''
     = Some (course0\<lparr>active := False\<rparr>)
   \<and> \<not> active (course0\<lparr>active := False\<rparr>)
   \<and> (\<exists>c'. Course_findById
              (snd (enrollStudent (db0\<lparr>courses := [course0\<lparr>active := False\<rparr>]\<rparr>) ''c1'' None ada))
              ''c1'' = Some c'
           \<and> \<not> active c' \<and> prefix (students (course0\<lparr>active := False\<rparr>)) (students c'))"
proof -
  have h1: "Course_findById (db0\<lparr>courses := [course0\<lparr>active := False\<rparr>]\<rparr>) ''c1''
              = Some (course0\<lparr>active := False\<rparr>)"
    by (simp add: Course_findById_def db0_def course0_def)
  have h2: "\<not> active (course0\<lparr>active := False\<rparr>)" by simp
  from enrollStudent_inactive [OF h1 h2, of None ada] h1 h2 show ?thesis by blast
qed

text \<open>
  C4 (as stated, refuted). A free course with an access key rejects a request that
  submits another key.
\<close>

theorem enrollStudent_free_counterexample:
  "enrollStudent (db0\<lparr>courses := [course0\<lparr>accessKey := Some ''key''\<rparr>]\<rparr>) ''c1'' (Some ''no'') ada
   = (Inl (ForbiddenError course_accessKey),
      db0\<lparr>courses := [course0\<lparr>accessKey := Some ''key''\<rparr>]\<rparr>)"
  by (simp add: enrollStudent_def Course_findById_def db0_def course0_def)

text \<open>
  C4 (amended). For a course with \<open>enrollType = free\<close> the attempt is rejected, with the
  access-key error, exactly when \<open>accessKey\<close> is a non-empty string other than the
  submitted key; in every other case, so whenever \<open>accessKey\<close> is unset or empty, the
  result is that of the membership step, which rejects nothing.
\<close>

theorem enrollStudent_free:
  assumes "Course_findById d i = Some c" and "enrollType c = ''free''"
  shows "enrollStudent d i k u =
           (if \<exists>s. accessKey c = Some s \<and> s \<noteq> [] \<and> k \<noteq> Some s
            then (Inl (ForbiddenError course_accessKey), d)
            else enroll_membership d c u)
       \<and> (\<forall>e. fst (enroll_membership d c u) \<noteq> Inl e)"
proof -
  have "enrollType c \<noteq> ''whitelist''" using assms(2) by simp
  from enrollStudent_not_whitelist [OF assms(1) this, of k u] show ?thesis
    by (auto simp: truthy_iff enroll_membership_succeeds)
qed

theorem enrollStudent_free_witness:
  "Course_findById (db0\<lparr>courses := [course0]\<rparr>) ''c1'' = Some course0
   \<and> enrollType course0 = ''free''
   \<and> enrollStudent (db0\<lparr>courses := [course0]\<rparr>) ''c1'' (Some ''no'') ada
       = enroll_membership (db0\<lparr>courses := [course0]\<rparr>) course0 ada"
proof -
  have h1: "Course_findById (db0\<lparr>courses := [course0]\<rparr>) ''c1'' = Some course0"
    by (simp add: Course_findById_def db0_def course0_def)
  have h2: "enrollType course0 = ''free''" by (simp add: course0_def)
  have "accessKey course0 = None" by (simp add: course0_def)
  with enrollStudent_free [OF h1 h2, of "Some ''no''" ada] h1 h2 show ?thesis by simp
qed

text \<open>
  C5 (as stated, refuted). The access key of an accesskey course is set to the empty
  string; a request with another key is let through and the student is enrolled.
\<close>

theorem enrollStudent_accesskey_counterexample:
  "enrollStudent
     (db0\<lparr>courses := [course0\<lparr>enrollType := ''accesskey'', accessKey := Some ''''\<rparr>]\<rparr>)
     ''c1'' (Some ''no'') ada
   = (Inr (CourseObject
             (course0\<lparr>enrollType := ''accesskey'', accessKey := Some '''',
                      students := [''u1'']\<rparr>)),
      db0\<lparr>courses := [course0\<lparr>enrollType := ''accesskey'', accessKey := Some '''',
                                students := [''u1'']\<rparr>]\<rparr>)"
  by (simp add: enrollStudent_def enroll_membership_def Course_findById_def Course_save_def
      indexOf_def Let_def db0_def course0_def ada_def)

text \<open>
  C5 (amended). For a course with \<open>enrollType = accesskey\<close>: when \<open>accessKey\<close> is unset or
  the empty string the result is that of the membership step, whatever is submitted; when
  it is a non-empty string the result is that of the membership step if the submitted key
  equals it, and the access-key error, with nothing written, otherwise. The membership
  step rejects nothing.
\<close>

theorem enrollStudent_accesskey:
  assumes "Course_findById d i = Some c" and "enrollType c = ''accesskey''"
  shows "enrollStudent d i k u =
           (case accessKey c of
              None \<Rightarrow> enroll_membership d c u
            | Some s \<Rightarrow>
                if s = [] \<or> k = Some s then enroll_membership d c u
                else (Inl (ForbiddenError course_accessKey), d))
       \<and> (\<forall>e. fst (enroll_membership d c u) \<noteq> Inl e)"
proof -
  have "enrollType c \<noteq> ''whitelist''" using assms(2) by simp
  from enrollStudent_not_whitelist [OF assms(1) this, of k u] show ?thesis
    by (auto simp: enroll_membership_succeeds split: option.splits)
qed

theorem enrollStudent_accesskey_witness:
  "Course_findById
     (db0\<lparr>courses := [course0\<lparr>enrollType := ''accesskey'', accessKey := Some ''s3cr3t''\<rparr>]\<rparr>)
     ''c1'' = Some (course0\<lparr>enrollType := ''accesskey'', accessKey := Some ''s3cr3t''\<rparr>)
   \<and> enrollType (course0\<lparr>enrollType := ''accesskey'', accessKey := Some ''s3cr3t''\<rparr>)
       = ''accesskey''
   \<and> enrollStudent
       (db0\<lparr>courses := [course0\<lparr>enrollType := ''accesskey'', accessKey := Some ''s3cr3t''\<rparr>]\<rparr>)
       ''c1'' (Some ''wrong'') ada
     = (Inl (ForbiddenError course_accessKey),
        db0\<lparr>courses := [course0\<lparr>enrollType := ''accesskey'', accessKey := Some ''s3cr3t''\<rparr>]\<rparr>)"
proof -
  let ?c = "course0\<lparr>enrollType := ''accesskey'', accessKey := Some ''s3cr3t''\<rparr>"
  have h1: "Course_findById (db0\<lparr>courses := [?c]\<rparr>) ''c1'' = Some ?c"
    by (simp add: Course_findById_def db0_def course0_def)
  have h2: "enrollType ?c = ''accesskey''" by simp
  from enrollStudent_accesskey [OF h1 h2, of "Some ''wrong''" ada] h1 h2 show ?thesis
    by simp
qed

text \<open>
  C6. For a student whose id is among the students of the course, an attempt writes
  nothing, so the students stay as they are, entry for entry; and if the attempt is not
  rejected, the handler resolves to the course as it is stored. For whatever student,
  a list of students without duplicates is still without duplicates after the attempt,
  and a second attempt has the result of the first and leaves the state of the first.
\<close>

theorem enrollStudent_member_unchanged:
  "(\<forall>c. Course_findById d i = Some c \<and> user_id u \<in> set (students c) \<longrightarrow>
        snd (enrollStudent d i k u) = d
        \<and> ((\<forall>e. fst (enrollStudent d i k u) \<noteq> Inl e) \<longrightarrow>
             enrollStudent d i k u = (Inr (CourseObject c), d)))
   \<and> (\<forall>c c'. Course_findById d i = Some c \<and> distinct (students c)
          \<and> Course_findById (snd (enrollStudent d i k u)) i = Some c' \<longrightarrow>
        distinct (students c'))
   \<and> enrollStudent (snd (enrollStudent d i k u)) i k u = enrollStudent d i k u"
proof (intro conjI allI impI)
  fix c
  assume a: "Course_findById d i = Some c \<and> user_id u \<in> set (students c)"
  then show "snd (enrollStudent d i k u) = d"
    by (simp add: enrollStudent_member_no_write)
  assume "\<forall>e. fst (enrollStudent d i k u) \<noteq> Inl e"
  with a show "enrollStudent d i k u = (Inr (CourseObject c), d)"
    by (auto simp: enrollStudent_def enroll_membership_result WhitelistUser_find_def
        split: if_splits)
next
  fix c c'
  assume a: "Course_findById d i = Some c \<and> distinct (students c)
             \<and> Course_findById (snd (enrollStudent d i k u)) i = Some c'"
  show "distinct (students c')"
  proof (cases "snd (enrollStudent d i k u) = d")
    case True
    with a have "c' = c" by auto
    with a show ?thesis by simp
  next
    case False
    let ?c' = "c\<lparr>students := students c @ [user_id u]\<rparr>"
    from False a have n: "user_id u \<notin> set (students c)"
      and r: "snd (enrollStudent d i k u) = Course_save ?c' d"
      by (auto simp: enrollStudent_def enroll_membership_result WhitelistUser_find_def
          split: if_splits)
    have "Course_findById (Course_save ?c' d) i = Some ?c'"
      using a Course_findById_id [of d i c] by (simp add: Course_findById_save)
    with a r have "c' = ?c'" by simp
    with a n show ?thesis by simp
  qed
next
  show "enrollStudent (snd (enrollStudent d i k u)) i k u = enrollStudent d i k u"
    by (rule enrollStudent_twice)
qed

theorem enrollStudent_member_unchanged_witness:
  "Course_findById (db0\<lparr>courses := [course0\<lparr>students := [''u2'', ''u1'']\<rparr>]\<rparr>) ''c1''
     = Some (course0\<lparr>students := [''u2'', ''u1'']\<rparr>)
   \<and> user_id ada \<in> set (students (course0\<lparr>students := [''u2'', ''u1'']\<rparr>))
   \<and> distinct (students (course0\<lparr>students := [''u2'', ''u1'']\<rparr>))
   \<and> enrollStudent (db0\<lparr>courses := [course0\<lparr>students := [''u2'', ''u1'']\<rparr>]\<rparr>) ''c1'' None ada
       = (Inr (CourseObject (course0\<lparr>students := [''u2'', ''u1'']\<rparr>)),
          db0\<lparr>courses := [course0\<lparr>students := [''u2'', ''u1'']\<rparr>]\<rparr>)"
proof -
  let ?c = "course0\<lparr>students := [''u2'', ''u1'']\<rparr>"
  let ?d = "db0\<lparr>courses := [?c]\<rparr>"
  have h1: "Course_findById ?d ''c1'' = Some ?c"
    by (simp add: Course_findById_def db0_def course0_def)
  have h2: "user_id ada \<in> set (students ?c)" by (simp add: ada_def)
  have h3: "distinct (students ?c)" by simp
  have h4: "\<forall>e. fst (enrollStudent ?d ''c1'' None ada) \<noteq> Inl e"
    by (simp add: enrollStudent_def enroll_membership_def Course_findById_def indexOf_def
        db0_def course0_def ada_def)
  from enrollStudent_member_unchanged [of ?d "''c1''" ada None] h1 h2 h4
  have "enrollStudent ?d ''c1'' None ada = (Inr (CourseObject ?c), ?d)" by blast
  with h1 h2 h3 show ?thesis by blast
qed

section \<open>Leaving\<close>

lemma indexOf_from_append:
  "x \<notin> set xs \<Longrightarrow> indexOf_from (xs @ x # ys) x i = i + int (length xs)"
  by (induction xs arbitrary: i) auto

lemma indexOf_append: "x \<notin> set xs \<Longrightarrow> indexOf (xs @ x # ys) x = int (length xs)"
  by (simp add: indexOf_def indexOf_from_append)

lemma indexOf_from_absent: "x \<notin> set xs \<Longrightarrow> indexOf_from xs x i = - 1"
  by (induction xs arbitrary: i) auto

lemma indexOf_absent: "x \<notin> set xs \<Longrightarrow> indexOf xs x = - 1"
  by (simp add: indexOf_def indexOf_from_absent)

lemma splice_js_at: "splice_js (int (length xs)) (Suc 0) (xs @ x # ys) = xs @ ys"
  by (simp add: splice_js_def)

lemma splice_js_last: "splice_js (- 1) (Suc 0) xs = butlast xs"
  by (cases xs rule: rev_cases) (simp_all add: splice_js_def Let_def)

text \<open>What leaving does, case by case.\<close>

lemma leaveStudent_head_stays:
  assumes "Course_findById d i = Some c" and "students c = user_id u # rest"
  shows "leaveStudent d i u = (Inr (CourseObject c), d)"
  using assms by (simp add: leaveStudent_def indexOf_def)

lemma leaveStudent_absent_drops_last:
  assumes "Course_findById d i = Some c" and "user_id u \<notin> set (students c)"
  shows "leaveStudent d i u
           = (Inr (CourseObject (c\<lparr>students := butlast (students c)\<rparr>)),
              Course_save (c\<lparr>students := butlast (students c)\<rparr>) d)"
  using assms by (simp add: leaveStudent_def indexOf_absent splice_js_last Let_def)

lemma leaveStudent_later_removed:
  assumes "Course_findById d i = Some c" and "students c = xs @ user_id u # ys"
    and "user_id u \<notin> set xs" and "xs \<noteq> []"
  shows "leaveStudent d i u
           = (Inr (CourseObject (c\<lparr>students := xs @ ys\<rparr>)),
              Course_save (c\<lparr>students := xs @ ys\<rparr>) d)"
  using assms by (simp add: leaveStudent_def indexOf_append splice_js_at Let_def)

text \<open>
  C2. Leaving is decided by \<^verbatim>\<open>index !== 0\<close>. The student at position 0 stays a member
  (first equation: u1 leaves a course whose students are u1, u2), and a student who is
  not a member takes the last student out, since \<^verbatim>\<open>splice(-1, 1)\<close> removes the last
  element (second equation: u1 leaves a course whose students are u2, u3).
\<close>

theorem leaveStudent_first_stays_absent_removes_last:
  "leaveStudent (db0\<lparr>courses := [course0\<lparr>students := [''u1'', ''u2'']\<rparr>]\<rparr>) ''c1'' ada
     = (Inr (CourseObject (course0\<lparr>students := [''u1'', ''u2'']\<rparr>)),
        db0\<lparr>courses := [course0\<lparr>students := [''u1'', ''u2'']\<rparr>]\<rparr>)
   \<and> leaveStudent (db0\<lparr>courses := [course0\<lparr>students := [''u2'', ''u3'']\<rparr>]\<rparr>) ''c1'' ada
     = (Inr (CourseObject (course0\<lparr>students := [''u2'']\<rparr>)),
        db0\<lparr>courses := [course0\<lparr>students := [''u2'']\<rparr>]\<rparr>)"
  by (simp add: leaveStudent_def Course_findById_def Course_save_def indexOf_def splice_js_def
      Let_def db0_def course0_def ada_def)

section \<open>File units\<close>

text \<open>What a run of unlink calls leaves in the log and on the disk.\<close>

lemma fold_unlink_log:
  "unlink_log (fold (\<lambda>file f'. if P file then unlink_discard (path file) f' else f') fs f)
     = unlink_log f @ map path (filter P fs)"
  by (induction fs arbitrary: f) (simp_all add: unlink_discard_def fs_unlink_def)

lemma fold_unlink_present:
  "present (fold (\<lambda>file f'. if P file then unlink_discard (path file) f' else f') fs f)
     = present f - set (map path (filter P fs))"
  by (induction fs arbitrary: f) (auto simp: unlink_discard_def fs_unlink_def)

lemma FileUnit_pre_remove_log:
  "unlink_log (FileUnit_pre_remove u f) = unlink_log f @ map path (files u)"
  using fold_unlink_log [of "\<lambda>_. True" "files u" f] by (simp add: FileUnit_pre_remove_def)

text \<open>
  Deleting a file unit that exists: the handler answers \<^verbatim>\<open>{result: true}\<close>, one unlink
  is attempted per recorded file, in order, whatever the disk holds, the record is gone,
  and the lectures are what the single-document update leaves. An unknown id is answered
  with \<^verbatim>\<open>NotFoundError\<close> and nothing changes.
\<close>

lemma Unit_findById_id: "Unit_findById d i = Some u \<Longrightarrow> unit_id u = i"
  by (auto simp: Unit_findById_def find_Some_iff)

lemma deleteUnit_NotFound:
  "Unit_findById d i = None \<Longrightarrow> deleteUnit d i = (Inl NotFoundError, d)"
  by (simp add: deleteUnit_def)

lemma deleteUnit_found:
  assumes "Unit_findById d i = Some u" and "unit_t u = ''file''"
  shows "fst (deleteUnit d i) = Inr True"
    and "unlink_log (disk (snd (deleteUnit d i))) = unlink_log (disk d) @ map path (files u)"
    and "Unit_findById (snd (deleteUnit d i)) i = None"
    and "lecture_docs (snd (deleteUnit d i)) = Lecture_update_pull (lecture_docs d) i"
  using assms Unit_findById_id [OF assms(1)]
  by (simp_all add: deleteUnit_def Unit_remove_def Let_def FileUnit_pre_remove_log
      Unit_findById_def find_None_iff)

lemma Lecture_update_pull_first:
  "Lecture_update_pull (l # ls) i = l' # ls' \<Longrightarrow> i \<notin> set (units l') \<and> ls' = ls"
  by auto

text \<open>
  C7. The file unit x1, with two files of which none is on the disk, belongs to the second
  lecture of the collection. Deleting it attempts both unlinks, deletes the record and
  answers \<^verbatim>\<open>{result: true}\<close>, but the id is pulled from the first lecture only: the
  lecture that owns the unit still lists x1.
\<close>

theorem deleteUnit_other_lecture_keeps_id:
  "deleteUnit
     (db0\<lparr>lecture_docs := [\<lparr>lecture_id = ''l1'', units = [''x2'']\<rparr>,
                            \<lparr>lecture_id = ''l2'', units = [''x1'']\<rparr>],
          unit_docs := [unit_kata, unit_file]\<rparr>) ''x1''
   = (Inr True,
      db0\<lparr>lecture_docs := [\<lparr>lecture_id = ''l1'', units = [''x2'']\<rparr>,
                            \<lparr>lecture_id = ''l2'', units = [''x1'']\<rparr>],
          unit_docs := [unit_kata],
          disk := \<lparr>present = {}, unlink_log = [''up/a'', ''up/b'']\<rparr>\<rparr>)"
  by (simp add: deleteUnit_def Unit_findById_def Unit_remove_def FileUnit_pre_remove_def
      unlink_discard_def fs_unlink_def Let_def db0_def unit_kata_def unit_file_def file_a_def file_b_def)

text \<open>
  C8. Replacing the files of a file unit returns the new list as it is, whatever the disk
  holds, and attempts exactly one unlink for each stored file whose name is not among the
  names of the new list, in the order of the stored files, and none for the others.
\<close>

theorem files_set_unlinks_exactly_removed:
  "fst (FileUnit_files_set this newFiles f) = newFiles
   \<and> unlink_log (snd (FileUnit_files_set this newFiles f))
       = unlink_log f
         @ map path (filter (\<lambda>file. name file \<notin> set (map name newFiles)) (files this))"
proof -
  have e: "filter (\<lambda>file. \<not> list_ex (\<lambda>newFile. name newFile = name file) newFiles) xs
             = filter (\<lambda>file. name file \<notin> set (map name newFiles)) xs" for xs
    by (rule filter_cong) (force simp: list_ex_iff image_iff)+
  show ?thesis
    by (simp add: FileUnit_files_set_def fold_unlink_log e)
qed

theorem files_set_unlinks_exactly_removed_witness:
  "FileUnit_files_set unit_file [file_b] \<lparr>present = {''up/b''}, unlink_log = []\<rparr>
     = ([file_b], \<lparr>present = {''up/b''}, unlink_log = [''up/a'']\<rparr>)
   \<and> unlink_log (snd (FileUnit_files_set unit_file [file_b] \<lparr>present = {''up/b''}, unlink_log = []\<rparr>))
     = [''up/a'']"
  using files_set_unlinks_exactly_removed
          [of unit_file "[file_b]" "\<lparr>present = {''up/b''}, unlink_log = []\<rparr>"]
  by (simp add: FileUnit_files_set_def unlink_discard_def fs_unlink_def unit_file_def file_a_def file_b_def)

section \<open>Reading courses\<close>

text \<open>Populating yields stored documents only.\<close>

lemma map_filter_find_subset:
  "set (List.map_filter (\<lambda>i. find (P i) xs) ids) \<subseteq> set xs"
proof (induction ids)
  case Nil
  then show ?case by simp
next
  case (Cons i ids)
  then show ?case
    by (auto split: option.splits simp: find_Some_iff)
qed

lemma populate_units_stored: "set (populate_units d ids) \<subseteq> set (unit_docs d)"
  unfolding populate_units_def by (rule map_filter_find_subset)

lemma populate_users_stored: "set (populate_users d ids) \<subseteq> set (users d)"
  unfolding populate_users_def by (rule map_filter_find_subset)

text \<open>
  When \<^verbatim>\<open>getCourse\<close> answers with a course, the stored state is what it was, and every
  unit of the answer is a stored unit, with its code set to \<^verbatim>\<open>null\<close> if it is a code kata
  and the reader is a student, and unchanged otherwise.
\<close>

lemma getCourse_units:
  assumes "getCourse d i u = (Inr obj, d')"
  shows "d' = d
       \<and> (\<forall>l \<in> set (co_lectures obj). \<forall>un \<in> set (lo_units l).
             \<exists>s \<in> set (unit_docs d).
               un = (if unit_t s = ''code-kata'' \<and> role u = ''student''
                     then s\<lparr>code := None\<rparr> else s))
       \<and> (role u = ''student'' \<longrightarrow>
             (\<forall>l \<in> set (co_lectures obj). \<forall>un \<in> set (lo_units l).
                unit_t un = ''code-kata'' \<longrightarrow> code un = None))
       \<and> (role u \<noteq> ''student'' \<longrightarrow>
             (\<forall>l \<in> set (co_lectures obj). \<forall>un \<in> set (lo_units l).
                un \<in> set (unit_docs d)))"
proof -
  let ?sup = "\<lambda>s. if unit_t s = ''code-kata'' \<and> role u = ''student''
                   then s\<lparr>code := None\<rparr> else s"
  from assms obtain c where
    fc: "find (matches ((userReadConditions u)\<lparr>cond_id := Some i\<rparr>)) (courses d) = Some c"
    by (auto simp: getCourse_def split: option.splits)
  from assms fc have d': "d' = d"
    by (simp add: getCourse_def Let_def)
  define pop where
    "pop = (\<lambda>l :: lecture. \<lparr>lo_id = lecture_id l, lo_units = map ?sup (populate_units d (units l))\<rparr>)"
  from assms fc have lect: "co_lectures obj = map pop (populate_lectures d (lectures c))"
    by (auto simp: getCourse_def Let_def o_def pop_def)
  have a: "\<forall>l \<in> set (co_lectures obj). \<forall>un \<in> set (lo_units l).
             \<exists>s \<in> set (unit_docs d). un = ?sup s"
  proof (intro ballI)
    fix l un
    assume l: "l \<in> set (co_lectures obj)" and un: "un \<in> set (lo_units l)"
    from l lect obtain l0 where "l = pop l0" by auto
    then have "lo_units l = map ?sup (populate_units d (units l0))" by (simp add: pop_def)
    with un obtain s where "s \<in> set (populate_units d (units l0))" and "un = ?sup s"
      by auto
    with populate_units_stored [of d "units l0"] show "\<exists>s \<in> set (unit_docs d). un = ?sup s"
      by blast
  qed
  have stored: "\<exists>s \<in> set (unit_docs d). un = ?sup s"
    if "l \<in> set (co_lectures obj)" and "un \<in> set (lo_units l)" for l un
    using a that by blast
  have b: "role u = ''student'' \<longrightarrow>
             (\<forall>l \<in> set (co_lectures obj). \<forall>un \<in> set (lo_units l).
                unit_t un = ''code-kata'' \<longrightarrow> code un = None)"
  proof (intro impI ballI)
    fix l un
    assume "role u = ''student''" "l \<in> set (co_lectures obj)" "un \<in> set (lo_units l)"
      "unit_t un = ''code-kata''"
    with stored [of l un] obtain s where s: "un = ?sup s" and k: "unit_t un = ''code-kata''"
      and r: "role u = ''student''"
      by blast
    have "unit_t un = unit_t s"
      by (subst s) simp
    with s k r have "un = s\<lparr>code := None\<rparr>" by simp
    then have "code un = code (s\<lparr>code := None\<rparr>)" by (rule arg_cong)
    then show "code un = None" by simp
  qed
  have c: "role u \<noteq> ''student'' \<longrightarrow>
             (\<forall>l \<in> set (co_lectures obj). \<forall>un \<in> set (lo_units l). un \<in> set (unit_docs d))"
  proof (intro impI ballI)
    fix l un
    assume "role u \<noteq> ''student''" "l \<in> set (co_lectures obj)" "un \<in> set (lo_units l)"
    with stored [of l un] show "un \<in> set (unit_docs d)" by auto
  qed
  from d' a b c show ?thesis by blast
qed

text \<open>Whom \<^verbatim>\<open>getCourse\<close> answers: the read conditions, role by role.\<close>

lemma matches_userReadConditions:
  "matches ((userReadConditions u)\<lparr>cond_id := Some i\<rparr>) c
     = (course_id c = i
        \<and> (role u = ''admin''
           \<or> (role u = ''student'' \<and> active c \<and> user_id u \<in> set (students c))
           \<or> (role u \<noteq> ''student''
               \<and> (user_id u \<in> set (teachers c) \<or> courseAdmin c = user_id u))))"
  by (auto simp: matches_def userReadConditions_def)

lemma getCourse_answers_iff:
  "(\<exists>obj. fst (getCourse d i u) = Inr obj)
     = (\<exists>c \<in> set (courses d). matches ((userReadConditions u)\<lparr>cond_id := Some i\<rparr>) c)"
proof (cases "find (matches ((userReadConditions u)\<lparr>cond_id := Some i\<rparr>)) (courses d)")
  case None
  then have "getCourse d i u = (Inl NotFoundError, d)"
    by (simp add: getCourse_def)
  moreover from None have
    "\<not> (\<exists>c \<in> set (courses d). matches ((userReadConditions u)\<lparr>cond_id := Some i\<rparr>) c)"
    by (auto simp: find_None_iff)
  ultimately show ?thesis by simp
next
  case (Some c)
  then have "c \<in> set (courses d)" and "matches ((userReadConditions u)\<lparr>cond_id := Some i\<rparr>) c"
    by (auto simp: find_Some_iff)
  with Some show ?thesis
    by (auto simp: getCourse_def Let_def)
qed

lemma getCourse_no_write: "snd (getCourse d i u) = d"
  by (simp add: getCourse_def Let_def split: option.splits)

text \<open>
  C9. \<^verbatim>\<open>getCourse\<close> never changes the stored state. It answers with a course exactly
  when a stored course has the id asked for and the reader may read it: an admin any course,
  a student an active course of which the student is a member, anyone else a course of which
  the reader is a teacher or the course admin. Every unit of an answer is a stored unit,
  with its code set to \<^verbatim>\<open>null\<close> if it is a code kata and the reader is a student, and
  unchanged otherwise. So for a student every code kata of the answer has no code, and for
  any other role every unit of the answer is a stored unit as it is, its code included.
\<close>

theorem getCourse_code_kata_suppressed:
  "snd (getCourse d i u) = d
   \<and> ((\<exists>obj. fst (getCourse d i u) = Inr obj)
        = (\<exists>c \<in> set (courses d). course_id c = i
             \<and> (role u = ''admin''
                \<or> (role u = ''student'' \<and> active c \<and> user_id u \<in> set (students c))
                \<or> (role u \<noteq> ''student''
                    \<and> (user_id u \<in> set (teachers c) \<or> courseAdmin c = user_id u)))))
   \<and> (\<forall>obj. fst (getCourse d i u) = Inr obj \<longrightarrow>
          (\<forall>l \<in> set (co_lectures obj). \<forall>un \<in> set (lo_units l).
             \<exists>s \<in> set (unit_docs d).
               un = (if unit_t s = ''code-kata'' \<and> role u = ''student''
                     then s\<lparr>code := None\<rparr> else s))
          \<and> (role u = ''student'' \<longrightarrow>
                (\<forall>l \<in> set (co_lectures obj). \<forall>un \<in> set (lo_units l).
                   unit_t un = ''code-kata'' \<longrightarrow> code un = None))
          \<and> (role u \<noteq> ''student'' \<longrightarrow>
                (\<forall>l \<in> set (co_lectures obj). \<forall>un \<in> set (lo_units l).
                   un \<in> set (unit_docs d))))"
proof (intro conjI allI impI)
  show "snd (getCourse d i u) = d" by (rule getCourse_no_write)
  show "(\<exists>obj. fst (getCourse d i u) = Inr obj)
        = (\<exists>c \<in> set (courses d). course_id c = i
             \<and> (role u = ''admin''
                \<or> (role u = ''student'' \<and> active c \<and> user_id u \<in> set (students c))
                \<or> (role u \<noteq> ''student''
                    \<and> (user_id u \<in> set (teachers c) \<or> courseAdmin c = user_id u))))"
    by (simp only: getCourse_answers_iff matches_userReadConditions)
next
  fix obj
  assume "fst (getCourse d i u) = Inr obj"
  then have g: "getCourse d i u = (Inr obj, d)"
    using getCourse_no_write [of d i u] by (metis prod.collapse)
  note r = getCourse_units [OF g]
  from r show "\<forall>l \<in> set (co_lectures obj). \<forall>un \<in> set (lo_units l).
             \<exists>s \<in> set (unit_docs d).
               un = (if unit_t s = ''code-kata'' \<and> role u = ''student''
                     then s\<lparr>code := None\<rparr> else s)"
    by blast
  {
    assume "role u = ''student''"
    with r show "\<forall>l \<in> set (co_lectures obj). \<forall>un \<in> set (lo_units l).
                   unit_t un = ''code-kata'' \<longrightarrow> code un = None"
      by blast
  }
  {
    assume "role u \<noteq> ''student''"
    with r show "\<forall>l \<in> set (co_lectures obj). \<forall>un \<in> set (lo_units l).
                   un \<in> set (unit_docs d)"
      by blast
  }
qed

theorem getCourse_code_kata_suppressed_witness:
  "getCourse db_kata ''c1'' ada
     = (Inr \<lparr>co_id = ''c1'', co_active = True, co_enrollType = ''free'', co_accessKey = None,
             co_whitelist = [], co_students = [ada, bob], co_teachers = [],
             co_courseAdmin = Some tess,
             co_lectures =
               [\<lparr>lo_id = ''l1'', lo_units = [unit_kata\<lparr>code := None\<rparr>, unit_file]\<rparr>]\<rparr>,
        db_kata)
   \<and> getCourse db_kata ''c1'' tess
     = (Inr \<lparr>co_id = ''c1'', co_active = True, co_enrollType = ''free'', co_accessKey = None,
             co_whitelist = [], co_students = [ada, bob], co_teachers = [],
             co_courseAdmin = Some tess,
             co_lectures = [\<lparr>lo_id = ''l1'', lo_units = [unit_kata, unit_file]\<rparr>]\<rparr>,
        db_kata)
   \<and> role ada = ''student'' \<and> role tess \<noteq> ''student''
   \<and> unit_t unit_kata = ''code-kata'' \<and> code unit_kata = Some ''f()''
   \<and> unit_kata \<in> set (unit_docs db_kata)"
proof -
  have a: "getCourse db_kata ''c1'' ada
     = (Inr \<lparr>co_id = ''c1'', co_active = True, co_enrollType = ''free'', co_accessKey = None,
             co_whitelist = [], co_students = [ada, bob], co_teachers = [],
             co_courseAdmin = Some tess,
             co_lectures =
               [\<lparr>lo_id = ''l1'', lo_units = [unit_kata\<lparr>code := None\<rparr>, unit_file]\<rparr>]\<rparr>,
        db_kata)"
    by (simp add: getCourse_def userReadConditions_def matches_def populate_users_def
        populate_lectures_def populate_units_def populate_whitelist_def Let_def
        db_kata_def db0_def course0_def unit_file_def unit_kata_def ada_def bob_def tess_def)
  have t: "getCourse db_kata ''c1'' tess
     = (Inr \<lparr>co_id = ''c1'', co_active = True, co_enrollType = ''free'', co_accessKey = None,
             co_whitelist = [], co_students = [ada, bob], co_teachers = [],
             co_courseAdmin = Some tess,
             co_lectures = [\<lparr>lo_id = ''l1'', lo_units = [unit_kata, unit_file]\<rparr>]\<rparr>,
        db_kata)"
    by (simp add: getCourse_def userReadConditions_def matches_def populate_users_def
        populate_lectures_def populate_units_def populate_whitelist_def Let_def
        db_kata_def db0_def course0_def unit_file_def unit_kata_def ada_def bob_def tess_def)
  from getCourse_code_kata_suppressed [of db_kata "''c1''" ada]
    getCourse_code_kata_suppressed [of db_kata "''c1''" tess] a t
  show ?thesis
    by (simp add: db_kata_def db0_def unit_kata_def ada_def tess_def)
qed

text \<open>
  C10. Every course object that \<^verbatim>\<open>getCourses\<close> returns to a student is without its
  course admin, and every entry of its students is a stored user with the id of the
  student who asks.
\<close>

theorem getCourses_student_hides_others:
  assumes "role u = ''student''" and "obj \<in> set (getCourses d u)"
  shows "co_courseAdmin obj = None
       \<and> (\<forall>s \<in> set (co_students obj). user_id s = user_id u \<and> s \<in> set (users d))"
  using assms
  by (auto simp: getCourses_def Let_def userReadConditions_def split: option.splits
      dest: subsetD [OF populate_users_stored])

theorem getCourses_student_hides_others_witness:
  "role ada = ''student''
   \<and> getCourses db_kata ada
       = [\<lparr>co_id = ''c1'', co_active = True, co_enrollType = ''free'', co_accessKey = None,
           co_whitelist = [], co_students = [ada], co_teachers = [], co_courseAdmin = None,
           co_lectures = [\<lparr>lecture_id = ''l1'', units = [''x2'', ''x1'']\<rparr>]\<rparr>]
   \<and> ''u2'' \<in> set (students (hd (courses db_kata)))"
proof -
  have r: "role ada = ''student''" by (simp add: ada_def)
  have g: "getCourses db_kata ada
       = [\<lparr>co_id = ''c1'', co_active = True, co_enrollType = ''free'', co_accessKey = None,
           co_whitelist = [], co_students = [ada], co_teachers = [], co_courseAdmin = None,
           co_lectures = [\<lparr>lecture_id = ''l1'', units = [''x2'', ''x1'']\<rparr>]\<rparr>]"
    by (simp add: getCourses_def userReadConditions_def matches_def populate_users_def
        populate_lectures_def Let_def db_kata_def db0_def course0_def ada_def bob_def tess_def)
  have m: "hd (getCourses db_kata ada) \<in> set (getCourses db_kata ada)" by (simp add: g)
  from getCourses_student_hides_others [OF r m] r g show ?thesis
    by (simp add: db_kata_def db0_def course0_def)
qed

text \<open>
  The answer to a student depends on the students of the courses only through the entries
  of the student who asks: two stores that agree on these, on the users and on the lectures
  give the same answer, whoever else is enrolled.
\<close>

lemma filter_populate_users:
  "filter (\<lambda>s. user_id s = j) (populate_users d ids)
     = populate_users d (filter (\<lambda>s. s = j) ids)"
proof (induction ids)
  case Nil
  then show ?case by (simp add: populate_users_def)
next
  case (Cons i ids)
  show ?case
  proof (cases "find (\<lambda>u. user_id u = i) (users d)")
    case None
    with Cons show ?thesis by (auto simp: populate_users_def)
  next
    case (Some x)
    then have "user_id x = i" by (auto simp: find_Some_iff)
    with Cons Some show ?thesis by (auto simp: populate_users_def)
  qed
qed

lemma matches_own_entries:
  "matches \<lparr>cond_active = a,
            cond_or = Some [students_has (user_id u), enrollType_is ''free'',
                            enrollType_is ''accesskey''],
            cond_id = None\<rparr> (own_entries u c)
   = matches \<lparr>cond_active = a,
              cond_or = Some [students_has (user_id u), enrollType_is ''free'',
                              enrollType_is ''accesskey''],
              cond_id = None\<rparr> c"
  by (simp add: matches_def own_entries_def split: option.splits)

lemma getCourses_student_own_entries:
  assumes "role u = ''student''"
  shows "getCourses (d\<lparr>courses := map (own_entries u) (courses d)\<rparr>) u = getCourses d u"
proof -
  have s: "filter (\<lambda>s. user_id s = user_id u) (populate_users d (students (own_entries u c)))
          = filter (\<lambda>s. user_id s = user_id u) (populate_users d (students c))" for c
    by (simp add: filter_populate_users own_entries_def)
  have f: "course_id (own_entries u c) = course_id c" "active (own_entries u c) = active c"
    "enrollType (own_entries u c) = enrollType c" "accessKey (own_entries u c) = accessKey c"
    "whitelist (own_entries u c) = whitelist c" "teachers (own_entries u c) = teachers c"
    "lectures (own_entries u c) = lectures c" for c
    by (simp_all add: own_entries_def)
  have p: "populate_users (d\<lparr>courses := cs\<rparr>) = populate_users d"
    "populate_lectures (d\<lparr>courses := cs\<rparr>) = populate_lectures d" for cs
    by (simp_all add: populate_users_def populate_lectures_def fun_eq_iff)
  show ?thesis
    using assms
    by (simp add: getCourses_def Let_def userReadConditions_def filter_map o_def
        matches_own_entries s f p)
qed

lemma getCourses_student_noninterference:
  assumes "role u = ''student''"
    and "map (own_entries u) (courses d1) = map (own_entries u) (courses d2)"
    and "users d1 = users d2" and "lecture_docs d1 = lecture_docs d2"
  shows "getCourses d1 u = getCourses d2 u"
proof -
  have "getCourses d1 u = getCourses (d1\<lparr>courses := map (own_entries u) (courses d1)\<rparr>) u"
    using assms(1) by (rule getCourses_student_own_entries [symmetric])
  also have "\<dots> = getCourses (d2\<lparr>courses := map (own_entries u) (courses d2)\<rparr>) u"
    using assms(2-4) by (simp add: getCourses_def populate_users_def populate_lectures_def)
  also have "\<dots> = getCourses d2 u"
    using assms(1) by (rule getCourses_student_own_entries)
  finally show ?thesis .
qed

end
